theory Spec2Isabelle
  imports Main "HOL-Library.List_Lexorder" "HOL-Library.Char_ord"
begin

section \<open>Data model of core/contact.go\<close>

text \<open>
  The contact record \<^verbatim>\<open>ricochet.Contact\<close> and its request \<^verbatim>\<open>ricochet.ContactRequest\<close>
  are declared in the rpc package; the records below carry the fields that contact.go
  reads or writes. A nil \<^verbatim>\<open>Request\<close> pointer is \<open>None\<close>. Textual timestamps
  are strings, as in the source.
\<close>

datatype Contact_Status = UNKNOWN | OFFLINE | ONLINE | REQUEST | REJECTED

record ContactRequest =
  FromNickname :: string
  Text :: string
  Rejected :: bool
  WhenDelivered :: string
  WhenRejected :: string
  RemoteError :: string

record ContactData =
  Address :: string
  Nickname :: string
  WhenCreated :: string
  LastConnected :: string
  Request :: "ContactRequest option"
  Status :: Contact_Status

text \<open>
  A \<^verbatim>\<open>*connection.Connection\<close> is a pointer: two candidates are the same connection
  when the pointers are equal, and closing one closes the object both names reach.
  Pointers are natural numbers into a store of connection objects; Go has no dangling
  pointer, so the store is total. \<^verbatim>\<open>Authentication\<close> is a Go \<^verbatim>\<open>map[string]bool\<close>,
  whose lookup of an absent key yields false.
\<close>

type_synonym connptr = nat

record Connection =
  IsInbound :: bool
  RemoteHostname :: string
  Authentication :: "string \<rightharpoonup> bool"
  ConnClosed :: bool

definition authenticated :: "Connection \<Rightarrow> string \<Rightarrow> bool" where
  "authenticated cn scheme = (case Authentication cn scheme of None \<Rightarrow> False | Some b \<Rightarrow> b)"

text \<open>
  The \<^verbatim>\<open>Contact\<close> struct: the record pointer \<open>data\<close>, the per-contact mutex (true
  when held; \<^verbatim>\<open>sync.Mutex\<close> is not reentrant), the enable gate, the current connection
  (\<open>None\<close> is nil), the time of the last connection change in nanoseconds, and
  whether the lazily built conversation exists. The channels belong to the supervisor
  model further down.
\<close>

record Contact =
  data :: ContactData
  mutex :: bool
  connEnabled :: bool
  connection :: "connptr option"
  timeConnected :: int
  conversation :: bool

text \<open>
  What a run does to its collaborators, in program order: a store into the config's
  contact map, an event handed to the publisher, a close of a connection's transport,
  a flush of the conversation queue, a send on the assignment channel.
\<close>

datatype effect =
    ConfigWrite string ContactData
  | EventPublish ContactData
  | ConnClose connptr
  | SendQueuedMessages
  | AssignConnection connptr

text \<open>
  The world one contact lives in: the struct, the store of connection objects, the
  config's \<^verbatim>\<open>Contacts\<close> map and the effects so far. The source stores the pointer
  \<^verbatim>\<open>c.data\<close> in the map; the model stores the record's value at the moment of the
  store, which is what the map entry reads at that moment.
\<close>

record World =
  contact :: Contact
  conns :: "connptr \<Rightarrow> Connection"
  configContacts :: "string \<rightharpoonup> ContactData"
  trace :: "effect list"

text \<open>
  Helpers of the repository that are not in contact.go, taken as parameters:
  the address checks and projections of the core package (their error results are
  discarded by every caller in contact.go), the local identity's address, and the
  RFC 3339 rendering of a time.
\<close>

record Extern =
  IsAddressValid :: "string \<Rightarrow> bool"
  OnionFromAddress :: "string \<Rightarrow> string"
  PlainHostFromAddress :: "string \<Rightarrow> string"
  IdentityAddress :: string
  FormatRFC3339 :: "int \<Rightarrow> string"

subsection \<open>Time\<close>

text \<open>
  A \<^verbatim>\<open>time.Time\<close> is an integer count of nanoseconds; a \<^verbatim>\<open>time.Duration\<close> is a
  signed 64-bit count, and \<^verbatim>\<open>Time.Sub\<close> saturates at its bounds.
  \<^verbatim>\<open>time.Since(t)\<close> is \<^verbatim>\<open>time.Now().Sub(t)\<close>; the clock reading is the argument
  \<open>now\<close>.
\<close>

definition maxDuration :: int where
  "maxDuration = 2 ^ 63 - 1"

definition minDuration :: int where
  "minDuration = - (2 ^ 63)"

definition Second :: int where
  "Second = 1000000000"

definition Since :: "int \<Rightarrow> int \<Rightarrow> int" where
  "Since now t =
     (let d = now - t in
      if d > maxDuration then maxDuration
      else if d < minDuration then minDuration
      else d)"

section \<open>Replacing a connection\<close>

text \<open>
  \<^verbatim>\<open>shouldReplaceConnection\<close> (lines 556-579). Strings compare bytewise and
  lexicographically, a proper prefix being smaller, as in Go. The second reading of
  the clock (line 566) only feeds the log.
\<close>

definition shouldReplaceConnection :: "Extern \<Rightarrow> int \<Rightarrow> World \<Rightarrow> connptr \<Rightarrow> bool" where
  "shouldReplaceConnection ext now w conn =
     (let myHostname = PlainHostFromAddress ext (IdentityAddress ext) in
      case connection (contact w) of
        None \<Rightarrow> True
      | Some e \<Rightarrow>
          if IsInbound (conns w e) = IsInbound (conns w conn) then True
          else if Since now (timeConnected (contact w)) > 30 * Second then True
          else if (myHostname < RemoteHostname (conns w conn)) \<noteq> IsInbound (conns w conn)
            then True
          else False)"

section \<open>Outcomes of a call\<close>

text \<open>
  A call returns, or parks its goroutine in \<^verbatim>\<open>Lock\<close> on a mutex that is held, or
  dies in a run-time panic (a nil dereference, an out-of-range slice, an unlock of a
  mutex that is not locked). The world at that moment is kept in each case. Every
  \<^verbatim>\<open>Unlock\<close> of contact.go is issued by the goroutine that holds the mutex, so a
  goroutine that locks the mutex it already holds is parked for good. A call that
  finds the mutex held by another goroutine waits for it; the statements below start
  a call with the mutex free, or held by the caller where the source assumes so.
\<close>

datatype 'a outcome = Return 'a | Blocked World | Panicked World

fun and_then :: "'a outcome \<Rightarrow> ('a \<Rightarrow> 'b outcome) \<Rightarrow> 'b outcome" where
  "and_then (Return x) f = f x"
| "and_then (Blocked w) f = Blocked w"
| "and_then (Panicked w) f = Panicked w"

definition mutex_Lock :: "World \<Rightarrow> World outcome" where
  "mutex_Lock w =
     (if mutex (contact w) then Blocked w
      else Return (w\<lparr>contact := (contact w)\<lparr>mutex := True\<rparr>\<rparr>))"

definition mutex_Unlock :: "World \<Rightarrow> World outcome" where
  "mutex_Unlock w =
     (if mutex (contact w) then Return (w\<lparr>contact := (contact w)\<lparr>mutex := False\<rparr>\<rparr>)
      else Panicked w)"

text \<open>\<^verbatim>\<open>Data\<close> (lines 101-105): lock, clone the record, unlock.\<close>

definition Data :: "World \<Rightarrow> (World \<times> ContactData) outcome" where
  "Data w =
     and_then (mutex_Lock w) (\<lambda>w1.
     and_then (mutex_Unlock w1) (\<lambda>w2.
     Return (w2, data (contact w1))))"

text \<open>\<^verbatim>\<open>Conversation\<close> (lines 113-123): lock, build the conversation if absent, unlock.\<close>

definition Conversation :: "World \<Rightarrow> World outcome" where
  "Conversation w =
     and_then (mutex_Lock w) (\<lambda>w1.
     mutex_Unlock (w1\<lparr>contact := (contact w1)\<lparr>conversation := True\<rparr>\<rparr>))"

section \<open>Contact requests\<close>

definition set_data :: "(ContactData \<Rightarrow> ContactData) \<Rightarrow> World \<Rightarrow> World" where
  "set_data f w = w\<lparr>contact := (contact w)\<lparr>data := f (data (contact w))\<rparr>\<rparr>"

text \<open>
  The store \<^verbatim>\<open>config.Contacts[c.data.Address] = c.data\<close> between the config's own
  \<^verbatim>\<open>Lock\<close> and \<^verbatim>\<open>Unlock\<close> (lines 528-530 and 635-637).
\<close>

definition put_config :: "World \<Rightarrow> World" where
  "put_config w =
     w\<lparr>configContacts := (configContacts w)(Address (data (contact w)) \<mapsto> data (contact w)),
       trace := trace w @ [ConfigWrite (Address (data (contact w))) (data (contact w))]\<rparr>"

text \<open>
  \<^verbatim>\<open>updateContactRequest\<close> (lines 606-639); the caller holds the mutex. The tokens
  that write a field of the request dereference \<^verbatim>\<open>c.data.Request\<close>, which panics
  when it is nil. \<open>t\<close> is the clock reading of line 607.
\<close>

definition updateContactRequest :: "Extern \<Rightarrow> int \<Rightarrow> World \<Rightarrow> string \<Rightarrow> (World \<times> bool) outcome" where
  "updateContactRequest ext t w status =
     (let now = FormatRFC3339 ext t in
      if status = ''Pending'' then
        (case Request (data (contact w)) of
           None \<Rightarrow> Panicked w
         | Some r \<Rightarrow>
             Return (put_config
               (set_data (\<lambda>d. d\<lparr>Request := Some (r\<lparr>WhenDelivered := now\<rparr>)\<rparr>) w), True))
      else if status = ''Accepted'' then
        Return (put_config
          (set_data (\<lambda>d. d\<lparr>Request := None,
             Status := (if connection (contact w) \<noteq> None then ONLINE else UNKNOWN)\<rparr>) w), False)
      else if status = ''Rejected'' then
        (case Request (data (contact w)) of
           None \<Rightarrow> Panicked w
         | Some r \<Rightarrow>
             Return (put_config
               (set_data (\<lambda>d. d\<lparr>Request := Some (r\<lparr>WhenRejected := now\<rparr>)\<rparr>) w), False))
      else if status = ''Error'' then
        (case Request (data (contact w)) of
           None \<Rightarrow> Panicked w
         | Some r \<Rightarrow>
             Return (put_config
               (set_data (\<lambda>d. d\<lparr>Request :=
                  Some (r\<lparr>WhenRejected := now, RemoteError := ''error occurred''\<rparr>)\<rparr>) w), False))
      else Return (put_config w, False))"

text \<open>
  \<^verbatim>\<open>UpdateContactRequest\<close> (lines 583-602): lock with a deferred unlock; return false
  when no request is held; otherwise update, build the event from \<^verbatim>\<open>c.Data()\<close>,
  publish it and return.
\<close>

definition UpdateContactRequest :: "Extern \<Rightarrow> int \<Rightarrow> World \<Rightarrow> string \<Rightarrow> (World \<times> bool) outcome" where
  "UpdateContactRequest ext t w status =
     and_then (mutex_Lock w) (\<lambda>w1.
       if Request (data (contact w1)) = None then
         and_then (mutex_Unlock w1) (\<lambda>w2. Return (w2, False))
       else
         and_then (updateContactRequest ext t w1 status) (\<lambda>(w2, re).
         and_then (Data w2) (\<lambda>(w3, snapshot).
         and_then (mutex_Unlock (w3\<lparr>trace := trace w3 @ [EventPublish snapshot]\<rparr>)) (\<lambda>w4.
         Return (w4, re)))))"

section \<open>Connection state changes\<close>

text \<open>
  \<^verbatim>\<open>onConnectionStateChanged\<close> (lines 508-552); the caller holds the mutex. Its
  second half (lines 524-552) stamps the time, stores the record in the config,
  releases the mutex, publishes the event built from \<^verbatim>\<open>c.Data()\<close>, flushes the
  queued messages when a connection is held (the flush belongs to the conversation and
  is recorded as an effect) and takes the mutex again. \<open>t\<close> is the clock reading of
  line 525.
\<close>

definition persistAndPublish :: "Extern \<Rightarrow> int \<Rightarrow> World \<Rightarrow> World outcome" where
  "persistAndPublish ext t w1 =
     (let w2 = w1\<lparr>contact := (contact w1)\<lparr>timeConnected := t\<rparr>\<rparr>;
          w3 = set_data (\<lambda>d. d\<lparr>LastConnected := FormatRFC3339 ext t\<rparr>) w2;
          w4 = put_config w3
      in
      and_then (mutex_Unlock w4) (\<lambda>w5.
      and_then (Data w5) (\<lambda>(w6, snapshot).
      and_then
        (let w7 = w6\<lparr>trace := trace w6 @ [EventPublish snapshot]\<rparr> in
         if connection (contact w7) \<noteq> None then
           and_then (Conversation w7) (\<lambda>w8.
           Return (w8\<lparr>trace := trace w8 @ [SendQueuedMessages]\<rparr>))
         else Return w7)
        mutex_Lock)))"

text \<open>
  The first half (lines 509-522) is the case analysis on the connection; \<open>t0\<close> is
  the clock reading inside the nested \<^verbatim>\<open>updateContactRequest\<close>.
\<close>

definition onConnectionStateChanged :: "Extern \<Rightarrow> int \<Rightarrow> int \<Rightarrow> World \<Rightarrow> World outcome" where
  "onConnectionStateChanged ext t0 t w =
     and_then
       (case connection (contact w) of
          Some cn \<Rightarrow>
            if Request (data (contact w)) \<noteq> None \<and> IsInbound (conns w cn) then
              and_then (updateContactRequest ext t0 w ''Accepted'') (\<lambda>(w1, re). Return w1)
            else Return (set_data (\<lambda>d. d\<lparr>Status := ONLINE\<rparr>) w)
        | None \<Rightarrow>
            if Status (data (contact w)) = ONLINE then
              Return (set_data (\<lambda>d. d\<lparr>Status := OFFLINE\<rparr>) w)
            else Return w)
       (persistAndPublish ext t)"

section \<open>Adopting a candidate connection\<close>

definition closeConn :: "connptr \<Rightarrow> World \<Rightarrow> World" where
  "closeConn p w =
     w\<lparr>conns := (conns w)(p := (conns w p)\<lparr>ConnClosed := True\<rparr>),
       trace := trace w @ [ConnClose p]\<rparr>"

datatype assign_error =
  DuplicateAssignment | NotAuthenticated | HostnameMismatch | UsingExisting

text \<open>
  \<^verbatim>\<open>considerUsingConnection\<close> (lines 463-503); the caller holds the mutex and
  \<open>conn\<close> is not nil. The deferred function closes \<open>killConn\<close>: the candidate on
  every error return, the connection held so far (if any) on success. The result is
  the world and the error, \<open>None\<close> for nil.
\<close>

definition considerUsingConnection ::
    "Extern \<Rightarrow> int \<Rightarrow> World \<Rightarrow> connptr \<Rightarrow> World \<times> assign_error option" where
  "considerUsingConnection ext now w conn =
     (if Some conn = connection (contact w) then
        (closeConn conn w, Some DuplicateAssignment)
      else if \<not> authenticated (conns w conn) ''im.ricochet.auth.hidden-service'' then
        (closeConn conn w, Some NotAuthenticated)
      else if PlainHostFromAddress ext (Address (data (contact w)))
                \<noteq> RemoteHostname (conns w conn) then
        (closeConn conn w, Some HostnameMismatch)
      else if connection (contact w) \<noteq> None \<and> \<not> shouldReplaceConnection ext now w conn then
        (closeConn conn w, Some UsingExisting)
      else
        (case connection (contact w) of
           None \<Rightarrow> (w, None)
         | Some old \<Rightarrow> (closeConn old w, None)))"

section \<open>Loading a contact\<close>



text \<open>
  The relation between status and request, as the specification words it: the status
  is REQUEST exactly when a request is held and not rejected, and REJECTED exactly
  when a request is held and rejected.
\<close>

definition request_status_inv :: "ContactData \<Rightarrow> bool" where
  "request_status_inv d =
     (case Request d of
        None \<Rightarrow> Status d \<noteq> REQUEST \<and> Status d \<noteq> REJECTED
      | Some r \<Rightarrow> Status d = (if Rejected r then REJECTED else REQUEST))"

text \<open>
  The relation the code keeps: as above, except that REJECTED may also stand with no
  request held.
\<close>

definition request_status_kept :: "ContactData \<Rightarrow> bool" where
  "request_status_kept d =
     (case Request d of
        None \<Rightarrow> Status d \<noteq> REQUEST
      | Some r \<Rightarrow> Status d = (if Rejected r then REJECTED else REQUEST))"

section \<open>The outbound connector\<close>

text \<open>
  \<^verbatim>\<open>closeUnhandledConnection\<close> (lines 168-173) closes the transport and drains the
  connection with a null handler; what remains of it is the closed connection.
\<close>

definition closeUnhandledConnection :: "connptr \<Rightarrow> World \<Rightarrow> World" where
  "closeUnhandledConnection p w = closeConn p w"

text \<open>
  \<^verbatim>\<open>sendContactRequest\<close> (lines 399-450) starts the protocol processor in a
  goroutine, opens the request channel inside \<^verbatim>\<open>conn.Do\<close> and then waits in a
  \<^verbatim>\<open>select\<close>. What the connection, the peer and the context do is the script:
  \<^verbatim>\<open>conn.Do\<close> fails without calling the closure, or the closure runs and opening the
  channel fails, or the \<^verbatim>\<open>select\<close> takes the processor's end, a response token or
  the context's end. Each script carries the value the processor finally hands to
  \<^verbatim>\<open>processChan\<close> (\<open>None\<close> is nil). The closure reads two fields of
  \<^verbatim>\<open>c.data.Request\<close>, which panics when it is nil.
\<close>

datatype handshake_script =
    DoRefused "string option"
  | OpenChannelFails "string option"
  | ProcessEnds "string option"
  | PeerResponds string "string option"
  | ContextDone "string option"

definition sendContactRequest ::
    "Extern \<Rightarrow> int \<Rightarrow> World \<Rightarrow> connptr \<Rightarrow> handshake_script \<Rightarrow> (World \<times> string option) outcome" where
  "sendContactRequest ext t w conn hs =
     (case hs of
        DoRefused perr \<Rightarrow> Return (closeConn conn w, perr)
      | OpenChannelFails perr \<Rightarrow>
          (if Request (data (contact w)) = None then Panicked w
           else Return (closeConn conn w, perr))
      | ProcessEnds perr \<Rightarrow>
          (if Request (data (contact w)) = None then Panicked w
           else case perr of
                  None \<Rightarrow> Return (closeUnhandledConnection conn w, Some ''unknown connection break'')
                | Some e \<Rightarrow> Return (w, Some e))
      | PeerResponds response perr \<Rightarrow>
          (if Request (data (contact w)) = None then Panicked w
           else and_then (UpdateContactRequest ext t w response) (\<lambda>(w1, keep).
                  if response = ''Accepted'' then Return (w1, perr)
                  else Return (closeConn conn w1, perr)))
      | ContextDone perr \<Rightarrow>
          (if Request (data (contact w)) = None then Panicked w
           else Return (closeConn conn w, perr)))"

text \<open>
  One pass of the loop of \<^verbatim>\<open>connectOutbound\<close> (lines 309-378) meets: the dial
  (failed with the context cancelled, failed otherwise, or a connection), whether the
  version negotiation succeeded, the result of authentication (\<open>None\<close> for an error,
  otherwise the known flag), whether \<^verbatim>\<open>Backoff\<close> returned an error (it does so when
  the context is cancelled), the script of the request handshake, and the clock.
\<close>

datatype dial_result = DialCancelled | DialFailed | Dialled connptr

record Attempt =
  dial :: dial_result
  negotiated :: bool
  authKnown :: "bool option"
  backoffCancelled :: bool
  handshake :: handshake_script
  clock :: int

text \<open>
  A pass ends the loop (\<open>Finished\<close>: the function returns without a delivery, or the
  connection was sent on the assignment channel) or goes round again with the local
  \<open>isRequest\<close> flag as it then stands.
\<close>

datatype connector_result = Cancelled | Delivered connptr | StillTrying

datatype pass_end = Continue bool | Finished connector_result

definition backoff :: "Attempt \<Rightarrow> bool \<Rightarrow> World \<Rightarrow> (World \<times> pass_end) outcome" where
  "backoff a isRequest w =
     (if backoffCancelled a then Return (w, Finished Cancelled)
      else Return (w, Continue isRequest))"

definition deliver :: "connptr \<Rightarrow> World \<Rightarrow> (World \<times> pass_end) outcome" where
  "deliver oc w = Return (w\<lparr>trace := trace w @ [AssignConnection oc]\<rparr>, Finished (Delivered oc))"

definition connectPass ::
    "Extern \<Rightarrow> string \<Rightarrow> bool \<Rightarrow> World \<Rightarrow> Attempt \<Rightarrow> (World \<times> pass_end) outcome" where
  "connectPass ext hostname isRequest w a =
     (case dial a of
        DialCancelled \<Rightarrow> Return (w, Finished Cancelled)
      | DialFailed \<Rightarrow> Return (w, Continue isRequest)
      | Dialled oc \<Rightarrow>
          if length hostname < 16 then Panicked w
          else if \<not> negotiated a then backoff a isRequest (closeConn oc w)
          else
            (case authKnown a of
               None \<Rightarrow> backoff a isRequest (closeUnhandledConnection oc w)
             | Some known \<Rightarrow>
                 if \<not> known \<and> \<not> isRequest then
                   backoff a isRequest (closeUnhandledConnection oc w)
                 else
                   and_then
                     (if known \<and> isRequest then
                        and_then (UpdateContactRequest ext (clock a) w ''Accepted'')
                          (\<lambda>(w1, keep). Return (w1, False))
                      else Return (w, isRequest))
                     (\<lambda>(w1, isRequest1).
                        if isRequest1 then
                          and_then (sendContactRequest ext (clock a) w1 oc (handshake a))
                            (\<lambda>(w2, err).
                               if err \<noteq> None then backoff a isRequest1 w2
                               else deliver oc w2)
                        else deliver oc w1)))"

text \<open>
  The loop over the passes the script holds; a script that runs out leaves the
  connector still trying (\<^verbatim>\<open>NeverGiveUp\<close> is set).
\<close>

fun connectLoop ::
    "Extern \<Rightarrow> string \<Rightarrow> bool \<Rightarrow> World \<Rightarrow> Attempt list \<Rightarrow> (World \<times> connector_result) outcome" where
  "connectLoop ext hostname isRequest w [] = Return (w, StillTrying)"
| "connectLoop ext hostname isRequest w (a # rest) =
     (case connectPass ext hostname isRequest w a of
        Return (w1, Continue isRequest1) \<Rightarrow> connectLoop ext hostname isRequest1 w1 rest
      | Return (w1, Finished r) \<Rightarrow> Return (w1, r)
      | Blocked w1 \<Rightarrow> Blocked w1
      | Panicked w1 \<Rightarrow> Panicked w1)"

text \<open>
  \<^verbatim>\<open>connectOutbound\<close> (lines 299-379): under the mutex, read the host name and
  whether a request is held; then loop.
\<close>

definition connectOutbound ::
    "Extern \<Rightarrow> World \<Rightarrow> Attempt list \<Rightarrow> (World \<times> connector_result) outcome" where
  "connectOutbound ext w attempts =
     and_then (mutex_Lock w) (\<lambda>w1.
       let hostname = OnionFromAddress ext (Address (data (contact w1)));
           isRequest = (Request (data (contact w1)) \<noteq> None)
       in and_then (mutex_Unlock w1) (\<lambda>w2. connectLoop ext hostname isRequest w2 attempts))"

section \<open>The connection supervisor\<close>

text \<open>
  \<^verbatim>\<open>contactConnection\<close> (lines 184-277) and \<^verbatim>\<open>handleConnection\<close> (lines 280-294)
  as a machine that moves on what the supervisor receives. Its state is the world,
  the local \<open>connectionsEnabled\<close>, where the supervisor stands, and the protocol
  loops: the \<^verbatim>\<open>handleConnection\<close> goroutines that were started and have not yet
  handed their close notification to the supervisor. The supervisor stands at one of
  its two \<^verbatim>\<open>select\<close> statements (\<open>AtSelect\<close>), or at the receive of line 243 with
  the new connection already stored in the field (\<open>AwaitClosed\<close>), or past that
  receive and before line 244 (\<open>Launching\<close>). The outbound connector the
  supervisor spawns is the model above; what it delivers arrives here as an offer.
\<close>

datatype sup_pc = AtSelect | AwaitClosed connptr | Launching connptr

record Supervisor =
  world :: World
  connectionsEnabled :: bool
  pc :: sup_pc
  loops :: "connptr list"

text \<open>
  What moves the supervisor: an offer on \<open>connChannel\<close> (\<open>None\<close> is the nil
  wake-up) with the clock readings its handling takes, a close notification from a
  protocol loop, a value on \<open>connEnabledSignal\<close>, and the supervisor going on by
  itself after the receive of line 243.
\<close>

datatype sup_event =
    Offer "connptr option" int int int
  | CloseNotified int int
  | EnableSignal bool
  | Proceed int int

definition set_connection :: "connptr option \<Rightarrow> World \<Rightarrow> World" where
  "set_connection c w = w\<lparr>contact := (contact w)\<lparr>connection := c\<rparr>\<rparr>"

definition result_of :: "World outcome \<Rightarrow> World option" where
  "result_of r = (case r of Return w \<Rightarrow> Some w | Blocked w \<Rightarrow> None | Panicked w \<Rightarrow> None)"

text \<open>
  The tail of the offer branch and of the close branch: with the mutex held, run
  \<^verbatim>\<open>onConnectionStateChanged\<close> and unlock.
\<close>

definition changed_then_unlock :: "Extern \<Rightarrow> int \<Rightarrow> int \<Rightarrow> World \<Rightarrow> World option" where
  "changed_then_unlock ext t0 t w =
     result_of (and_then (onConnectionStateChanged ext t0 t w) mutex_Unlock)"

text \<open>
  One move. A protocol loop that ends closes its connection and then sends its
  notification (lines 282-285); the send completes only where the supervisor
  receives: at the \<^verbatim>\<open>select\<close> of the enabled state and at line 243. A move that the
  supervisor cannot make where it stands is \<open>None\<close>, as is one in which it never
  gets the mutex.
\<close>

definition sup_step :: "Extern \<Rightarrow> sup_event \<Rightarrow> Supervisor \<Rightarrow> Supervisor option" where
  "sup_step ext ev s =
     (case pc s of
        AtSelect \<Rightarrow>
          (if \<not> connectionsEnabled s then
             (case ev of
                Offer None now t0 t \<Rightarrow> Some s
              | Offer (Some conn) now t0 t \<Rightarrow>
                  Some (s\<lparr>world := closeUnhandledConnection conn (world s)\<rparr>)
              | EnableSignal enable \<Rightarrow>
                  Some (if enable then s\<lparr>connectionsEnabled := True\<rparr> else s)
              | CloseNotified t0 t \<Rightarrow> None
              | Proceed t0 t \<Rightarrow> None)
           else
             (case ev of
                Offer None now t0 t \<Rightarrow> Some s
              | Offer (Some conn) now t0 t \<Rightarrow>
                  (case result_of (mutex_Lock (world s)) of
                     None \<Rightarrow> None
                   | Some w1 \<Rightarrow>
                       (case considerUsingConnection ext now w1 conn of
                          (w2, Some err) \<Rightarrow>
                            (case result_of (mutex_Unlock (closeUnhandledConnection conn w2)) of
                               None \<Rightarrow> None
                             | Some w3 \<Rightarrow> Some (s\<lparr>world := w3\<rparr>))
                        | (w2, None) \<Rightarrow>
                            (if connection (contact w2) \<noteq> None then
                               (case result_of (mutex_Unlock (set_connection (Some conn) w2)) of
                                  None \<Rightarrow> None
                                | Some w3 \<Rightarrow> Some (s\<lparr>world := w3, pc := AwaitClosed conn\<rparr>))
                             else
                               (case changed_then_unlock ext t0 t (set_connection (Some conn) w2) of
                                  None \<Rightarrow> None
                                | Some w3 \<Rightarrow> Some (s\<lparr>world := w3, loops := conn # loops s\<rparr>)))))
              | CloseNotified t0 t \<Rightarrow>
                  (case loops s of
                     [] \<Rightarrow> None
                   | l # ls \<Rightarrow>
                       (case result_of (mutex_Lock (closeConn l (world s))) of
                          None \<Rightarrow> None
                        | Some w1 \<Rightarrow>
                            (case changed_then_unlock ext t0 t (set_connection None w1) of
                               None \<Rightarrow> None
                             | Some w2 \<Rightarrow> Some (s\<lparr>world := w2, loops := ls\<rparr>))))
              | EnableSignal enable \<Rightarrow>
                  Some (if enable then s else s\<lparr>connectionsEnabled := False\<rparr>)
              | Proceed t0 t \<Rightarrow> None))
      | AwaitClosed conn \<Rightarrow>
          (case ev of
             CloseNotified t0 t \<Rightarrow>
               (case loops s of
                  [] \<Rightarrow> None
                | l # ls \<Rightarrow>
                    Some (s\<lparr>world := closeConn l (world s), loops := ls, pc := Launching conn\<rparr>))
           | Offer c now t0 t \<Rightarrow> None
           | EnableSignal enable \<Rightarrow> None
           | Proceed t0 t \<Rightarrow> None)
      | Launching conn \<Rightarrow>
          (case ev of
             Proceed t0 t \<Rightarrow>
               (case result_of (mutex_Lock (world s)) of
                  None \<Rightarrow> None
                | Some w1 \<Rightarrow>
                    (case changed_then_unlock ext t0 t w1 of
                       None \<Rightarrow> None
                     | Some w2 \<Rightarrow>
                         Some (s\<lparr>world := w2, loops := conn # loops s, pc := AtSelect\<rparr>)))
           | Offer c now t0 t \<Rightarrow> None
           | EnableSignal enable \<Rightarrow> None
           | CloseNotified t0 t \<Rightarrow> None))"

fun sup_run :: "Extern \<Rightarrow> Supervisor \<Rightarrow> sup_event list \<Rightarrow> Supervisor option" where
  "sup_run ext s [] = Some s"
| "sup_run ext s (ev # evs) =
     (case sup_step ext ev s of None \<Rightarrow> None | Some s1 \<Rightarrow> sup_run ext s1 evs)"

text \<open>
  The supervisor as \<^verbatim>\<open>StartConnection\<close>, \<^verbatim>\<open>StopConnection\<close> or
  \<^verbatim>\<open>AssignConnection\<close> first starts it for a contact fresh from
  \<^verbatim>\<open>ContactFromConfig\<close>: disabled, at its \<^verbatim>\<open>select\<close>, no protocol loop.
\<close>

definition sup_start :: "World \<Rightarrow> Supervisor" where
  "sup_start w = \<lparr>world = w, connectionsEnabled = False, pc = AtSelect, loops = []\<rparr>"

text \<open>
  What ties the protocol loops to the connection field, by where the supervisor
  stands: at a \<^verbatim>\<open>select\<close> the loops are exactly the loop of the connection held;
  at the receive of line 243 the field already names the new connection while the one
  loop that runs is another connection's; past that receive no loop runs.
\<close>

definition sup_inv :: "Supervisor \<Rightarrow> bool" where
  "sup_inv s =
     (case pc s of
        AtSelect \<Rightarrow>
          loops s = (case connection (contact (world s)) of None \<Rightarrow> [] | Some c \<Rightarrow> [c])
      | AwaitClosed c \<Rightarrow>
          connection (contact (world s)) = Some c \<and> length (loops s) = 1 \<and> c \<notin> set (loops s)
      | Launching c \<Rightarrow> connection (contact (world s)) = Some c \<and> loops s = [])"

text \<open>The world with the contact's mutex taken.\<close>

definition lock_held :: "World \<Rightarrow> World" where
  "lock_held w = w\<lparr>contact := (contact w)\<lparr>mutex := True\<rparr>\<rparr>"

text \<open>The world a call leaves behind, however it ends.\<close>

fun world_after :: "(World \<times> 'a) outcome \<Rightarrow> World" where
  "world_after (Return (w, x)) = w"
| "world_after (Blocked w) = w"
| "world_after (Panicked w) = w"


section \<open>The contact under its public operations\<close>








text \<open>
  Two worlds with the same record, the same connection field and the same direction
  of every connection.
\<close>

definition same_view :: "World \<Rightarrow> World \<Rightarrow> bool" where
  "same_view w w' =
     (data (contact w') = data (contact w) \<and> connection (contact w') = connection (contact w)
      \<and> (\<forall>p. IsInbound (conns w' p) = IsInbound (conns w p)))"

section \<open>Sample values\<close>

text \<open>
  One instance of the absent helpers and some small worlds, used where a statement is
  evaluated at a concrete input. Addresses are \<open>ricochet:\<close> followed by sixteen
  characters; the plain host is the part after the prefix.
\<close>

definition sample_valid :: "string \<Rightarrow> bool" where
  "sample_valid a = (take 9 a = ''ricochet:'' \<and> length a = 25)"

definition sample_onion :: "string \<Rightarrow> string" where
  "sample_onion a = drop 9 a @ ''.onion''"

definition sample_plain :: "string \<Rightarrow> string" where
  "sample_plain a = drop 9 a"

definition sample_format :: "int \<Rightarrow> string" where
  "sample_format t = (if t = 0 then ''0001-01-01T00:00:00Z'' else ''2017-01-01T00:00:00Z'')"

definition ext_a :: Extern where
  "ext_a = \<lparr>IsAddressValid = sample_valid, OnionFromAddress = sample_onion,
            PlainHostFromAddress = sample_plain,
            IdentityAddress = ''ricochet:aaaaaaaaaaaaaaaa'',
            FormatRFC3339 = sample_format\<rparr>"

definition ext_z :: Extern where
  "ext_z = \<lparr>IsAddressValid = sample_valid, OnionFromAddress = sample_onion,
            PlainHostFromAddress = sample_plain,
            IdentityAddress = ''ricochet:zzzzzzzzzzzzzzzz'',
            FormatRFC3339 = sample_format\<rparr>"

definition sample_request :: ContactRequest where
  "sample_request = \<lparr>FromNickname = ''A'', Text = ''hi'', Rejected = False,
     WhenDelivered = [], WhenRejected = [], RemoteError = []\<rparr>"

definition data_of :: "string \<Rightarrow> ContactRequest option \<Rightarrow> Contact_Status \<Rightarrow> ContactData" where
  "data_of addr rq st = \<lparr>Address = addr, Nickname = ''peer'', WhenCreated = [],
     LastConnected = [], Request = rq, Status = st\<rparr>"

definition conn_of :: "bool \<Rightarrow> string \<Rightarrow> Connection" where
  "conn_of inbound host = \<lparr>IsInbound = inbound, RemoteHostname = host,
     Authentication = [''im.ricochet.auth.hidden-service'' \<mapsto> True], ConnClosed = False\<rparr>"

text \<open>
  In \<open>world_of\<close>, connection 1 is outbound and connection 2 inbound, both
  authenticated and both to the given peer; connection 3 is inbound and carries no
  authentication.
\<close>

definition heap_of :: "string \<Rightarrow> connptr \<Rightarrow> Connection" where
  "heap_of host p =
     (if p = 1 then conn_of False host
      else if p = 2 then conn_of True host
      else (conn_of True host)\<lparr>Authentication := Map.empty\<rparr>)"

definition world_of :: "ContactData \<Rightarrow> connptr option \<Rightarrow> bool \<Rightarrow> World" where
  "world_of d cur held =
     \<lparr>contact = \<lparr>data = d, mutex = held, connEnabled = True, connection = cur,
                  timeConnected = 1000, conversation = False\<rparr>,
      conns = heap_of (drop 9 (Address d)),
      configContacts = Map.empty,
      trace = []\<rparr>"

text \<open>
  A glare at the peer named \<open>zzzzzzzzzzzzzzzz\<close>, whose contact is the peer named
  \<open>aaaaaaaaaaaaaaaa\<close>: connections are enabled, the outbound connection 1 is offered
  and adopted, and within thirty seconds the inbound connection 2 is offered.
\<close>

definition glare_events :: "sup_event list" where
  "glare_events = [EnableSignal True, Offer (Some 1) 2000 5 6, Offer (Some 2) 3000 7 8]"

definition peer_a_world :: World where
  "peer_a_world = world_of (data_of ''ricochet:aaaaaaaaaaaaaaaa'' None UNKNOWN) None False"





section \<open>Theorems\<close>

lemma Since_gt_iff: "0 \<le> k \<Longrightarrow> k < maxDuration \<Longrightarrow> (Since now t > k) = (now - t > k)"
  by (auto simp: Since_def Let_def maxDuration_def minDuration_def)

lemma thirty_seconds: "0 \<le> 30 * Second \<and> 30 * Second < maxDuration"
  by (simp add: Second_def maxDuration_def)

text \<open>
  C1. \<^verbatim>\<open>shouldReplaceConnection\<close> answers true exactly when no connection is held, or
  the held one has the candidate's direction, or more than thirty seconds have passed
  since \<open>timeConnected\<close>, or the comparison of the local host name with the
  candidate's remote host name differs from the candidate's inbound flag. Every rule
  before the last answers true, so trying them in the source's order yields this
  disjunction. The saturation of \<^verbatim>\<open>Duration\<close> does not change the age test.
\<close>

theorem shouldReplaceConnection_iff:
  "shouldReplaceConnection ext now w conn =
     (connection (contact w) = None
      \<or> (\<exists>e. connection (contact w) = Some e \<and> IsInbound (conns w e) = IsInbound (conns w conn))
      \<or> now - timeConnected (contact w) > 30 * 1000000000
      \<or> ((PlainHostFromAddress ext (IdentityAddress ext) < RemoteHostname (conns w conn))
           \<noteq> IsInbound (conns w conn)))"
proof -
  have age: "(Since now (timeConnected (contact w)) > 30 * Second)
      = (now - timeConnected (contact w) > 30 * 1000000000)"
    using Since_gt_iff [of "30 * Second" now "timeConnected (contact w)"] thirty_seconds
    by (simp add: Second_def)
  show ?thesis
  proof (cases "connection (contact w)")
    case None
    then show ?thesis by (simp add: shouldReplaceConnection_def)
  next
    case (Some e)
    then show ?thesis
      unfolding shouldReplaceConnection_def Let_def age by auto
  qed
qed

theorem shouldReplaceConnection_iff_witness:
  "shouldReplaceConnection ext_a 2000
       (world_of (data_of ''ricochet:zzzzzzzzzzzzzzzz'' None ONLINE) (Some 1) True) 2 = False
   \<and> shouldReplaceConnection ext_z 2000
       (world_of (data_of ''ricochet:aaaaaaaaaaaaaaaa'' None ONLINE) (Some 1) True) 2 = True
   \<and> shouldReplaceConnection ext_a 31000001000
       (world_of (data_of ''ricochet:zzzzzzzzzzzzzzzz'' None ONLINE) (Some 1) True) 2 = True"
  using shouldReplaceConnection_iff [of ext_a 2000
      "world_of (data_of ''ricochet:zzzzzzzzzzzzzzzz'' None ONLINE) (Some 1) True" 2]
    shouldReplaceConnection_iff [of ext_z 2000
      "world_of (data_of ''ricochet:aaaaaaaaaaaaaaaa'' None ONLINE) (Some 1) True" 2]
    shouldReplaceConnection_iff [of ext_a 31000001000
      "world_of (data_of ''ricochet:zzzzzzzzzzzzzzzz'' None ONLINE) (Some 1) True" 2]
  by (simp add: world_of_def data_of_def heap_of_def conn_of_def ext_a_def ext_z_def
      sample_plain_def)

text \<open>
  C2. Two peers with distinct host names \<open>a\<close> and \<open>b\<close> each hold a young outbound
  connection to the other and each judge the other's inbound connection. The verdicts
  are complementary: the side named \<open>a\<close> replaces exactly when the side named \<open>b\<close>
  keeps. The side with the smaller name keeps its outbound connection and the other
  side replaces its own by that same connection, so the one connection left on both
  sides is the outbound connection of the smaller name.
\<close>

theorem glare_verdicts_complementary:
  assumes distinct: "a \<noteq> b"
    and sideA: "PlainHostFromAddress extA (IdentityAddress extA) = a"
      "RemoteHostname (conns wA cA) = b" "IsInbound (conns wA cA)"
      "connection (contact wA) = Some eA" "\<not> IsInbound (conns wA eA)"
      "\<not> Since nowA (timeConnected (contact wA)) > 30 * Second"
    and sideB: "PlainHostFromAddress extB (IdentityAddress extB) = b"
      "RemoteHostname (conns wB cB) = a" "IsInbound (conns wB cB)"
      "connection (contact wB) = Some eB" "\<not> IsInbound (conns wB eB)"
      "\<not> Since nowB (timeConnected (contact wB)) > 30 * Second"
  shows "shouldReplaceConnection extA nowA wA cA = (\<not> shouldReplaceConnection extB nowB wB cB)
    \<and> shouldReplaceConnection extA nowA wA cA = (b < a)
    \<and> shouldReplaceConnection extB nowB wB cB = (a < b)"
proof -
  have ra: "shouldReplaceConnection extA nowA wA cA = (\<not> a < b)"
    using sideA by (simp add: shouldReplaceConnection_def)
  have rb: "shouldReplaceConnection extB nowB wB cB = (\<not> b < a)"
    using sideB by (simp add: shouldReplaceConnection_def)
  from distinct have "(\<not> a < b) = (b < a)" by auto
  with ra rb show ?thesis by auto
qed

theorem glare_verdicts_complementary_witness:
  "\<not> shouldReplaceConnection ext_a 2000
       (world_of (data_of ''ricochet:zzzzzzzzzzzzzzzz'' None ONLINE) (Some 1) True) 2
   \<and> shouldReplaceConnection ext_z 2000
       (world_of (data_of ''ricochet:aaaaaaaaaaaaaaaa'' None ONLINE) (Some 1) True) 2"
  using glare_verdicts_complementary [of "''aaaaaaaaaaaaaaaa''" "''zzzzzzzzzzzzzzzz''"
      ext_a "world_of (data_of ''ricochet:zzzzzzzzzzzzzzzz'' None ONLINE) (Some 1) True" 2 1 2000
      ext_z "world_of (data_of ''ricochet:aaaaaaaaaaaaaaaa'' None ONLINE) (Some 1) True" 2 1 2000]
  by (simp add: world_of_def data_of_def heap_of_def conn_of_def ext_a_def ext_z_def
      sample_plain_def Since_def maxDuration_def minDuration_def Second_def)

text \<open>
  C3. With a request held, \<^verbatim>\<open>updateContactRequest\<close> returns, and returns true for
  the token Pending only. Pending stamps \<open>WhenDelivered\<close>; Accepted drops the request
  and sets the status to ONLINE when a connection is held and to UNKNOWN otherwise;
  Rejected stamps \<open>WhenRejected\<close>; Error stamps \<open>WhenRejected\<close> and sets
  \<open>RemoteError\<close>; any other token leaves the record as it was. Nothing else of the
  contact changes, and for every token the resulting record is stored in the config
  under the contact's address.
\<close>

theorem updateContactRequest_table:
  assumes held: "Request (data (contact w)) = Some r"
  shows "\<exists>w'. updateContactRequest ext t w status = Return (w', status = ''Pending'')
    \<and> data (contact w') =
        (if status = ''Pending'' then
           (data (contact w))\<lparr>Request := Some (r\<lparr>WhenDelivered := FormatRFC3339 ext t\<rparr>)\<rparr>
         else if status = ''Accepted'' then
           (data (contact w))\<lparr>Request := None,
              Status := (if connection (contact w) = None then UNKNOWN else ONLINE)\<rparr>
         else if status = ''Rejected'' then
           (data (contact w))\<lparr>Request := Some (r\<lparr>WhenRejected := FormatRFC3339 ext t\<rparr>)\<rparr>
         else if status = ''Error'' then
           (data (contact w))\<lparr>Request := Some (r\<lparr>WhenRejected := FormatRFC3339 ext t,
              RemoteError := ''error occurred''\<rparr>)\<rparr>
         else data (contact w))
    \<and> contact w' = (contact w)\<lparr>data := data (contact w')\<rparr>
    \<and> conns w' = conns w
    \<and> configContacts w' =
        (configContacts w)(Address (data (contact w)) \<mapsto> data (contact w'))
    \<and> trace w' = trace w @ [ConfigWrite (Address (data (contact w))) (data (contact w'))]"
  using held
  by (simp add: updateContactRequest_def Let_def put_config_def set_data_def)

theorem updateContactRequest_table_witness:
  "(\<exists>w'. updateContactRequest ext_a 5
       (world_of (data_of ''ricochet:zzzzzzzzzzzzzzzz'' (Some sample_request) REQUEST) None True)
       ''Error'' = Return (w', False)
     \<and> Request (data (contact w')) =
         Some (sample_request\<lparr>WhenRejected := ''2017-01-01T00:00:00Z'',
                 RemoteError := ''error occurred''\<rparr>)
     \<and> Status (data (contact w')) = REQUEST
     \<and> configContacts w' ''ricochet:zzzzzzzzzzzzzzzz'' = Some (data (contact w')))
   \<and> (\<exists>w'. updateContactRequest ext_a 5
       (world_of (data_of ''ricochet:zzzzzzzzzzzzzzzz'' (Some sample_request) REQUEST) None True)
       ''Pending'' = Return (w', True)
     \<and> Request (data (contact w')) =
         Some (sample_request\<lparr>WhenDelivered := ''2017-01-01T00:00:00Z''\<rparr>)
     \<and> Status (data (contact w')) = REQUEST)
   \<and> (\<exists>w'. updateContactRequest ext_a 5
       (world_of (data_of ''ricochet:zzzzzzzzzzzzzzzz'' (Some sample_request) REQUEST) (Some 1) True)
       ''Accepted'' = Return (w', False)
     \<and> Request (data (contact w')) = None
     \<and> Status (data (contact w')) = ONLINE)
   \<and> (\<exists>w'. updateContactRequest ext_a 5
       (world_of (data_of ''ricochet:zzzzzzzzzzzzzzzz'' (Some sample_request) REQUEST) None True)
       ''Maybe'' = Return (w', False)
     \<and> data (contact w') = data_of ''ricochet:zzzzzzzzzzzzzzzz'' (Some sample_request) REQUEST
     \<and> trace w' = [ConfigWrite ''ricochet:zzzzzzzzzzzzzzzz''
          (data_of ''ricochet:zzzzzzzzzzzzzzzz'' (Some sample_request) REQUEST)])"
  using updateContactRequest_table [of
      "world_of (data_of ''ricochet:zzzzzzzzzzzzzzzz'' (Some sample_request) REQUEST) None True"
      sample_request ext_a 5 "''Error''"]
    updateContactRequest_table [of
      "world_of (data_of ''ricochet:zzzzzzzzzzzzzzzz'' (Some sample_request) REQUEST) None True"
      sample_request ext_a 5 "''Pending''"]
    updateContactRequest_table [of
      "world_of (data_of ''ricochet:zzzzzzzzzzzzzzzz'' (Some sample_request) REQUEST) (Some 1) True"
      sample_request ext_a 5 "''Accepted''"]
    updateContactRequest_table [of
      "world_of (data_of ''ricochet:zzzzzzzzzzzzzzzz'' (Some sample_request) REQUEST) None True"
      sample_request ext_a 5 "''Maybe''"]
  by (auto simp: world_of_def data_of_def ext_a_def sample_format_def)

text \<open>
  C10. Called with the mutex free and no request held, \<^verbatim>\<open>UpdateContactRequest\<close>
  returns false for every token and leaves the whole world as it found it: the
  record, the config map and the effect trace (no config store, no event).
\<close>

theorem UpdateContactRequest_without_request:
  assumes free: "\<not> mutex (contact w)" and none: "Request (data (contact w)) = None"
  shows "UpdateContactRequest ext t w status = Return (w, False)"
  using free none
  by (simp add: UpdateContactRequest_def mutex_Lock_def mutex_Unlock_def)

theorem UpdateContactRequest_without_request_witness:
  "UpdateContactRequest ext_a 5
     (world_of (data_of ''ricochet:zzzzzzzzzzzzzzzz'' None UNKNOWN) None False) ''Accepted''
   = Return (world_of (data_of ''ricochet:zzzzzzzzzzzzzzzz'' None UNKNOWN) None False, False)"
  using UpdateContactRequest_without_request [of
      "world_of (data_of ''ricochet:zzzzzzzzzzzzzzzz'' None UNKNOWN) None False" ext_a 5 "''Accepted''"]
  by (simp add: world_of_def data_of_def)

text \<open>
  C5. Called with the mutex held, \<^verbatim>\<open>onConnectionStateChanged\<close> returns with the
  mutex held again, and the record it leaves follows the source's case analysis:
  with a connection that is inbound and a request held, the record is the one
  \<^verbatim>\<open>updateContactRequest\<close> leaves for the token Accepted; with any other connection
  the status becomes ONLINE; with no connection the status ONLINE becomes OFFLINE and
  any other status stays. In every case \<open>timeConnected\<close> is the clock reading and
  \<open>LastConnected\<close> its text, and the connection field is not touched.
\<close>

theorem onConnectionStateChanged_cases:
  assumes held: "mutex (contact w)"
  shows "\<exists>w'. onConnectionStateChanged ext t0 t w = Return w'
    \<and> (\<forall>cn. connection (contact w) = Some cn \<and> Request (data (contact w)) \<noteq> None
            \<and> IsInbound (conns w cn) \<longrightarrow>
          (\<exists>w1. updateContactRequest ext t0 w ''Accepted'' = Return (w1, False)
             \<and> data (contact w') = (data (contact w1))\<lparr>LastConnected := FormatRFC3339 ext t\<rparr>))
    \<and> (\<forall>cn. connection (contact w) = Some cn
            \<and> \<not> (Request (data (contact w)) \<noteq> None \<and> IsInbound (conns w cn)) \<longrightarrow>
          data (contact w') =
            (data (contact w))\<lparr>Status := ONLINE, LastConnected := FormatRFC3339 ext t\<rparr>)
    \<and> (connection (contact w) = None \<and> Status (data (contact w)) = ONLINE \<longrightarrow>
          data (contact w') =
            (data (contact w))\<lparr>Status := OFFLINE, LastConnected := FormatRFC3339 ext t\<rparr>)
    \<and> (connection (contact w) = None \<and> Status (data (contact w)) \<noteq> ONLINE \<longrightarrow>
          data (contact w') = (data (contact w))\<lparr>LastConnected := FormatRFC3339 ext t\<rparr>)
    \<and> timeConnected (contact w') = t
    \<and> LastConnected (data (contact w')) = FormatRFC3339 ext t
    \<and> connection (contact w') = connection (contact w)
    \<and> mutex (contact w')"
proof (cases "connection (contact w)")
  case None
  with held show ?thesis
    by (simp add: onConnectionStateChanged_def persistAndPublish_def updateContactRequest_def Let_def put_config_def
        set_data_def mutex_Lock_def mutex_Unlock_def Data_def Conversation_def)
next
  case (Some cn)
  with held show ?thesis
    by (simp add: onConnectionStateChanged_def persistAndPublish_def updateContactRequest_def Let_def put_config_def
        set_data_def mutex_Lock_def mutex_Unlock_def Data_def Conversation_def)
qed

theorem onConnectionStateChanged_cases_witness:
  "(\<exists>w'. onConnectionStateChanged ext_a 5 6
       (world_of (data_of ''ricochet:zzzzzzzzzzzzzzzz'' (Some sample_request) REQUEST) (Some 2) True)
     = Return w'
     \<and> Request (data (contact w')) = None
     \<and> Status (data (contact w')) = ONLINE
     \<and> LastConnected (data (contact w')) = ''2017-01-01T00:00:00Z''
     \<and> timeConnected (contact w') = 6)
   \<and> (\<exists>w'. onConnectionStateChanged ext_a 5 6
       (world_of (data_of ''ricochet:zzzzzzzzzzzzzzzz'' None UNKNOWN) (Some 1) True)
     = Return w'
     \<and> Status (data (contact w')) = ONLINE \<and> timeConnected (contact w') = 6)
   \<and> (\<exists>w'. onConnectionStateChanged ext_a 5 6
       (world_of (data_of ''ricochet:zzzzzzzzzzzzzzzz'' None ONLINE) None True)
     = Return w'
     \<and> Status (data (contact w')) = OFFLINE \<and> timeConnected (contact w') = 6)
   \<and> (\<exists>w'. onConnectionStateChanged ext_a 5 6
       (world_of (data_of ''ricochet:zzzzzzzzzzzzzzzz'' None UNKNOWN) None True)
     = Return w'
     \<and> Status (data (contact w')) = UNKNOWN \<and> timeConnected (contact w') = 6)"
  using onConnectionStateChanged_cases [of
      "world_of (data_of ''ricochet:zzzzzzzzzzzzzzzz'' (Some sample_request) REQUEST) (Some 2) True"
      ext_a 5 6]
    onConnectionStateChanged_cases [of
      "world_of (data_of ''ricochet:zzzzzzzzzzzzzzzz'' None UNKNOWN) (Some 1) True" ext_a 5 6]
    onConnectionStateChanged_cases [of
      "world_of (data_of ''ricochet:zzzzzzzzzzzzzzzz'' None ONLINE) None True" ext_a 5 6]
    onConnectionStateChanged_cases [of
      "world_of (data_of ''ricochet:zzzzzzzzzzzzzzzz'' None UNKNOWN) None True" ext_a 5 6]
  by (auto simp: world_of_def data_of_def heap_of_def conn_of_def ext_a_def sample_format_def
      updateContactRequest_def put_config_def set_data_def)

text \<open>
  C6. \<^verbatim>\<open>considerUsingConnection\<close> returns an error exactly when the candidate is the
  connection already held, or lacks the hidden-service authentication, or names
  another host than the contact's address, or a connection is held and
  \<^verbatim>\<open>shouldReplaceConnection\<close> says no; the four errors are distinct and each marks
  the first of these tests that fails. The contact struct and the config are never
  changed. On an error the candidate is closed and nothing else is. On success the
  candidate is left open, the connection held before (if any) is closed, and the
  connection field still names it.
\<close>

theorem considerUsingConnection_verdict:
  "\<exists>w' err. considerUsingConnection ext now w conn = (w', err)
    \<and> (err \<noteq> None) =
        (connection (contact w) = Some conn
         \<or> \<not> authenticated (conns w conn) ''im.ricochet.auth.hidden-service''
         \<or> PlainHostFromAddress ext (Address (data (contact w))) \<noteq> RemoteHostname (conns w conn)
         \<or> (connection (contact w) \<noteq> None \<and> \<not> shouldReplaceConnection ext now w conn))
    \<and> (err = Some DuplicateAssignment) = (connection (contact w) = Some conn)
    \<and> (err = Some NotAuthenticated) =
        (connection (contact w) \<noteq> Some conn
         \<and> \<not> authenticated (conns w conn) ''im.ricochet.auth.hidden-service'')
    \<and> (err = Some HostnameMismatch) =
        (connection (contact w) \<noteq> Some conn
         \<and> authenticated (conns w conn) ''im.ricochet.auth.hidden-service''
         \<and> PlainHostFromAddress ext (Address (data (contact w))) \<noteq> RemoteHostname (conns w conn))
    \<and> (err = Some UsingExisting) =
        (connection (contact w) \<noteq> Some conn
         \<and> authenticated (conns w conn) ''im.ricochet.auth.hidden-service''
         \<and> PlainHostFromAddress ext (Address (data (contact w))) = RemoteHostname (conns w conn)
         \<and> connection (contact w) \<noteq> None \<and> \<not> shouldReplaceConnection ext now w conn)
    \<and> contact w' = contact w
    \<and> configContacts w' = configContacts w
    \<and> (err \<noteq> None \<longrightarrow>
          conns w' = (conns w)(conn := (conns w conn)\<lparr>ConnClosed := True\<rparr>)
          \<and> trace w' = trace w @ [ConnClose conn])
    \<and> (err = None \<longrightarrow>
          conns w' conn = conns w conn
          \<and> (connection (contact w) = None \<longrightarrow> w' = w)
          \<and> (\<forall>old. connection (contact w) = Some old \<longrightarrow>
                ConnClosed (conns w' old) \<and> connection (contact w') = Some old
                \<and> trace w' = trace w @ [ConnClose old]))"
  by (cases "connection (contact w)")
     (auto simp: considerUsingConnection_def closeConn_def)

theorem considerUsingConnection_verdict_witness:
  "snd (considerUsingConnection ext_a 2000
      (world_of (data_of ''ricochet:zzzzzzzzzzzzzzzz'' None ONLINE) (Some 1) True) 3)
     = Some NotAuthenticated
   \<and> snd (considerUsingConnection ext_a 2000
      (world_of (data_of ''ricochet:zzzzzzzzzzzzzzzz'' None ONLINE) (Some 1) True) 2)
     = Some UsingExisting
   \<and> snd (considerUsingConnection ext_a 2000
      (world_of (data_of ''ricochet:zzzzzzzzzzzzzzzz'' None ONLINE) None True) 2)
     = None"
  using considerUsingConnection_verdict [of ext_a 2000
      "world_of (data_of ''ricochet:zzzzzzzzzzzzzzzz'' None ONLINE) (Some 1) True" 3]
    considerUsingConnection_verdict [of ext_a 2000
      "world_of (data_of ''ricochet:zzzzzzzzzzzzzzzz'' None ONLINE) (Some 1) True" 2]
    considerUsingConnection_verdict [of ext_a 2000
      "world_of (data_of ''ricochet:zzzzzzzzzzzzzzzz'' None ONLINE) None True" 2]
  by (simp add: world_of_def data_of_def heap_of_def conn_of_def ext_a_def sample_plain_def
      authenticated_def shouldReplaceConnection_def Since_def maxDuration_def minDuration_def
      Second_def considerUsingConnection_def closeConn_def)

subsection \<open>The supervisor\<close>

lemma result_of_Some: "result_of r = Some w \<Longrightarrow> r = Return w"
  by (cases r) (auto simp: result_of_def)

lemma mutex_Lock_contact:
  "mutex_Lock w = Return w' \<Longrightarrow> connection (contact w') = connection (contact w)
     \<and> data (contact w') = data (contact w) \<and> mutex (contact w')"
  by (auto simp: mutex_Lock_def split: if_splits)

lemma mutex_Unlock_contact:
  "mutex_Unlock w = Return w' \<Longrightarrow> connection (contact w') = connection (contact w)
     \<and> data (contact w') = data (contact w)"
  by (auto simp: mutex_Unlock_def split: if_splits)

lemma onConnectionStateChanged_connection:
  "onConnectionStateChanged ext t0 t w = Return w' \<Longrightarrow>
   connection (contact w') = connection (contact w)"
  by (cases "connection (contact w)"; cases "mutex (contact w)")
     (auto simp: onConnectionStateChanged_def persistAndPublish_def updateContactRequest_def Let_def put_config_def
      set_data_def mutex_Lock_def mutex_Unlock_def Data_def Conversation_def
      split: if_splits)

lemma changed_then_unlock_connection:
  assumes "changed_then_unlock ext t0 t w = Some w'"
  shows "connection (contact w') = connection (contact w)"
proof -
  from assms have r: "and_then (onConnectionStateChanged ext t0 t w) mutex_Unlock = Return w'"
    by (simp add: changed_then_unlock_def result_of_Some)
  then obtain w1 where a: "onConnectionStateChanged ext t0 t w = Return w1"
    and b: "mutex_Unlock w1 = Return w'"
    by (cases "onConnectionStateChanged ext t0 t w") auto
  from a b show ?thesis
    using onConnectionStateChanged_connection mutex_Unlock_contact by metis
qed

lemma considerUsingConnection_contact:
  "considerUsingConnection ext now w conn = (w', err) \<Longrightarrow> contact w' = contact w"
  by (auto simp: considerUsingConnection_def closeConn_def split: if_splits option.splits)

lemma considerUsingConnection_accepts_other:
  "considerUsingConnection ext now w conn = (w', None) \<Longrightarrow> connection (contact w) \<noteq> Some conn"
  by (auto simp: considerUsingConnection_def split: if_splits option.splits)

lemma closeConn_contact: "contact (closeConn p w) = contact w"
  by (simp add: closeConn_def)

lemma set_connection_connection: "connection (contact (set_connection c w)) = c"
  by (simp add: set_connection_def)

lemma sup_step_inv:
  assumes inv: "sup_inv s" and step: "sup_step ext ev s = Some s'"
  shows "sup_inv s'"
proof (cases "pc s")
  case AtSelect
  show ?thesis
  proof (cases ev)
    case (Offer c now t0 t)
    show ?thesis
    proof (cases c)
      case None
      with Offer AtSelect step inv show ?thesis
        by (auto simp: sup_step_def split: if_splits)
    next
      case (Some conn)
      show ?thesis
      proof (cases "connectionsEnabled s")
        case False
        with Some Offer AtSelect step inv show ?thesis
          by (auto simp: sup_step_def sup_inv_def closeUnhandledConnection_def closeConn_contact)
      next
        case True
        from True Some Offer AtSelect step obtain w1 where
          l: "result_of (mutex_Lock (world s)) = Some w1"
          by (auto simp: sup_step_def split: option.splits)
        obtain w2 err where cu: "considerUsingConnection ext now w1 conn = (w2, err)"
          by (cases "considerUsingConnection ext now w1 conn") auto
        have c1: "connection (contact w1) = connection (contact (world s))"
          using l mutex_Lock_contact result_of_Some by metis
        have c2: "contact w2 = contact w1"
          using cu considerUsingConnection_contact by metis
        show ?thesis
        proof (cases err)
          case (Some e)
          with True \<open>c = Some conn\<close> Offer AtSelect step l cu obtain w3 where
            u: "result_of (mutex_Unlock (closeUnhandledConnection conn w2)) = Some w3"
            and s': "s' = s\<lparr>world := w3\<rparr>"
            by (auto simp: sup_step_def split: option.splits)
          have "connection (contact w3) = connection (contact (world s))"
            using u mutex_Unlock_contact [of "closeUnhandledConnection conn w2" w3] c1 c2
            by (simp add: result_of_Some closeUnhandledConnection_def closeConn_contact)
          with s' inv AtSelect show ?thesis by (simp add: sup_inv_def)
        next
          case None
          have other: "connection (contact (world s)) \<noteq> Some conn"
            using cu None considerUsingConnection_accepts_other c1 by metis
          show ?thesis
          proof (cases "connection (contact w2)")
            case (Some old)
            with None True \<open>c = Some conn\<close> Offer AtSelect step l cu obtain w3 where
              u: "result_of (mutex_Unlock (set_connection (Some conn) w2)) = Some w3"
              and s': "s' = s\<lparr>world := w3, pc := AwaitClosed conn\<rparr>"
              by (auto simp: sup_step_def split: option.splits)
            have "connection (contact w3) = Some conn"
              using u mutex_Unlock_contact [of "set_connection (Some conn) w2" w3]
              by (simp add: result_of_Some set_connection_connection)
            moreover have "loops s = [old]"
              using inv AtSelect Some c1 c2 by (simp add: sup_inv_def)
            moreover have "old \<noteq> conn" using other Some c1 c2 by auto
            ultimately show ?thesis using s' by (simp add: sup_inv_def)
          next
            case none: None
            with None True \<open>c = Some conn\<close> Offer AtSelect step l cu obtain w3 where
              u: "changed_then_unlock ext t0 t (set_connection (Some conn) w2) = Some w3"
              and s': "s' = s\<lparr>world := w3, loops := conn # loops s\<rparr>"
              by (auto simp: sup_step_def split: option.splits)
            have "connection (contact w3) = Some conn"
              using changed_then_unlock_connection [OF u]
              by (simp add: set_connection_connection)
            moreover have "loops s = []"
              using inv AtSelect none c1 c2 by (simp add: sup_inv_def)
            ultimately show ?thesis using s' AtSelect by (simp add: sup_inv_def)
          qed
        qed
      qed
    qed
  next
    case (CloseNotified t0 t)
    with AtSelect step obtain l ls w1 w2 where
      ls: "loops s = l # ls"
      and lk: "result_of (mutex_Lock (closeConn l (world s))) = Some w1"
      and u: "changed_then_unlock ext t0 t (set_connection None w1) = Some w2"
      and s': "s' = s\<lparr>world := w2, loops := ls\<rparr>"
      by (auto simp: sup_step_def split: if_splits list.splits option.splits)
    have "connection (contact w2) = None"
      using changed_then_unlock_connection [OF u] by (simp add: set_connection_connection)
    moreover have "ls = []"
      using inv AtSelect ls by (auto simp: sup_inv_def split: option.splits)
    ultimately show ?thesis using s' AtSelect by (simp add: sup_inv_def)
  next
    case (EnableSignal enable)
    with AtSelect step inv show ?thesis
      by (auto simp: sup_step_def sup_inv_def split: if_splits)
  next
    case (Proceed t0 t)
    with AtSelect step show ?thesis
      by (auto simp: sup_step_def split: if_splits)
  qed
next
  case (AwaitClosed conn)
  with step obtain l ls t0 t where "ev = CloseNotified t0 t" "loops s = l # ls"
    and s': "s' = s\<lparr>world := closeConn l (world s), loops := ls, pc := Launching conn\<rparr>"
    by (auto simp: sup_step_def split: sup_event.splits list.splits)
  with inv AwaitClosed show ?thesis
    by (auto simp: sup_inv_def closeConn_contact)
next
  case (Launching conn)
  with step obtain t0 t w1 w2 where "ev = Proceed t0 t"
    and lk: "result_of (mutex_Lock (world s)) = Some w1"
    and u: "changed_then_unlock ext t0 t w1 = Some w2"
    and s': "s' = s\<lparr>world := w2, loops := conn # loops s, pc := AtSelect\<rparr>"
    by (auto simp: sup_step_def split: sup_event.splits option.splits)
  have "connection (contact w2) = connection (contact (world s))"
    using changed_then_unlock_connection [OF u] lk mutex_Lock_contact result_of_Some by metis
  with inv Launching s' show ?thesis by (simp add: sup_inv_def)
qed

lemma sup_run_inv:
  "sup_inv s \<Longrightarrow> sup_run ext s evs = Some s' \<Longrightarrow> sup_inv s'"
proof (induction evs arbitrary: s)
  case Nil
  then show ?case by simp
next
  case (Cons ev evs)
  then show ?case
    by (auto split: option.splits dest: sup_step_inv)
qed

lemma glare_run_view:
  "map_option (\<lambda>s. (pc s, connection (contact (world s)), loops s))
     (sup_run ext_z (sup_start peer_a_world) glare_events) = Some (AwaitClosed 2, Some 2, [1])"
  by code_simp

lemma glare_next_view:
  "map_option (\<lambda>s. (pc s, connection (contact (world s)), loops s))
     (sup_step ext_z (CloseNotified 9 10)
        (the (sup_run ext_z (sup_start peer_a_world) glare_events)))
   = Some (Launching 2, Some 2, [])"
  by code_simp

lemma sup_step_AwaitClosed:
  assumes "pc s = AwaitClosed c" and "sup_step ext ev s = Some s'"
  shows "(\<exists>t0 t. ev = CloseNotified t0 t) \<and> pc s' = Launching c \<and> loops s' = tl (loops s)"
  using assms by (auto simp: sup_step_def split: sup_event.splits list.splits)

lemma sup_step_Launching:
  assumes "pc s = Launching c" and "sup_step ext ev s = Some s'"
  shows "(\<exists>t0 t. ev = Proceed t0 t) \<and> pc s' = AtSelect \<and> loops s' = c # loops s"
  using assms by (auto simp: sup_step_def split: sup_event.splits option.splits)

text \<open>
  C7, as the code has it. From a supervisor started on a contact without a
  connection, after any sequence of moves: at most one protocol loop runs. While the
  supervisor waits at line 243 for the close notification, the connection field
  already names the new connection, the one loop running is the old connection's and
  the new connection's loop has not been started; the only move from there is the
  receipt of the close notification, after which no loop runs; and only from there
  does the supervisor start the new connection's loop. So the start of the new
  protocol loop, not the store into the field, comes strictly after the receipt.
\<close>

theorem supervisor_one_protocol_loop:
  assumes fresh: "connection (contact w) = None"
    and run: "sup_run ext (sup_start w) evs = Some s"
  shows "length (loops s) \<le> 1
    \<and> (\<forall>c. pc s = AwaitClosed c \<longrightarrow>
          connection (contact (world s)) = Some c \<and> c \<notin> set (loops s) \<and> length (loops s) = 1)
    \<and> (\<forall>c. pc s = Launching c \<longrightarrow> connection (contact (world s)) = Some c \<and> loops s = [])
    \<and> (pc s = AtSelect \<longrightarrow>
          loops s = (case connection (contact (world s)) of None \<Rightarrow> [] | Some c \<Rightarrow> [c]))
    \<and> (\<forall>c ev s'. pc s = AwaitClosed c \<and> sup_step ext ev s = Some s' \<longrightarrow>
          (\<exists>t0 t. ev = CloseNotified t0 t) \<and> pc s' = Launching c \<and> loops s' = [])
    \<and> (\<forall>c ev s'. pc s = Launching c \<and> sup_step ext ev s = Some s' \<longrightarrow>
          (\<exists>t0 t. ev = Proceed t0 t) \<and> pc s' = AtSelect \<and> loops s' = [c])"
proof -
  have "sup_inv (sup_start w)"
    using fresh by (simp add: sup_inv_def sup_start_def)
  then have inv: "sup_inv s"
    using run sup_run_inv by blast
  have p1: "length (loops s) \<le> 1"
    using inv by (cases "pc s"; cases "connection (contact (world s))") (simp_all add: sup_inv_def)
  have p2: "\<forall>c. pc s = AwaitClosed c \<longrightarrow>
          connection (contact (world s)) = Some c \<and> c \<notin> set (loops s) \<and> length (loops s) = 1"
    using inv by (cases "pc s") (simp_all add: sup_inv_def)
  have p3: "\<forall>c. pc s = Launching c \<longrightarrow> connection (contact (world s)) = Some c \<and> loops s = []"
    using inv by (cases "pc s") (simp_all add: sup_inv_def)
  have p4: "pc s = AtSelect \<longrightarrow>
          loops s = (case connection (contact (world s)) of None \<Rightarrow> [] | Some c \<Rightarrow> [c])"
    using inv by (cases "pc s") (simp_all add: sup_inv_def)
  have p5: "\<forall>c ev s'. pc s = AwaitClosed c \<and> sup_step ext ev s = Some s' \<longrightarrow>
          (\<exists>t0 t. ev = CloseNotified t0 t) \<and> pc s' = Launching c \<and> loops s' = []"
  proof (intro allI impI)
    fix c ev s'
    assume h: "pc s = AwaitClosed c \<and> sup_step ext ev s = Some s'"
    then have "length (loops s) = 1" using p2 by blast
    then have "tl (loops s) = []" by (cases "loops s") simp_all
    with h sup_step_AwaitClosed [of s c ext ev s']
    show "(\<exists>t0 t. ev = CloseNotified t0 t) \<and> pc s' = Launching c \<and> loops s' = []"
      by simp
  qed
  have p6: "\<forall>c ev s'. pc s = Launching c \<and> sup_step ext ev s = Some s' \<longrightarrow>
          (\<exists>t0 t. ev = Proceed t0 t) \<and> pc s' = AtSelect \<and> loops s' = [c]"
  proof (intro allI impI)
    fix c ev s'
    assume h: "pc s = Launching c \<and> sup_step ext ev s = Some s'"
    then have "loops s = []" using p3 by blast
    with h sup_step_Launching [of s c ext ev s']
    show "(\<exists>t0 t. ev = Proceed t0 t) \<and> pc s' = AtSelect \<and> loops s' = [c]"
      by simp
  qed
  from p1 p2 p3 p4 p5 p6 show ?thesis by blast
qed

theorem supervisor_one_protocol_loop_witness:
  "connection (contact peer_a_world) = None
   \<and> sup_run ext_z (sup_start peer_a_world) glare_events \<noteq> None
   \<and> length (loops (the (sup_run ext_z (sup_start peer_a_world) glare_events))) \<le> 1
   \<and> pc (the (sup_run ext_z (sup_start peer_a_world) glare_events)) = AwaitClosed 2
   \<and> connection (contact (world (the (sup_run ext_z (sup_start peer_a_world) glare_events))))
       = Some 2
   \<and> 2 \<notin> set (loops (the (sup_run ext_z (sup_start peer_a_world) glare_events)))
   \<and> map_option pc (sup_step ext_z (CloseNotified 9 10)
          (the (sup_run ext_z (sup_start peer_a_world) glare_events))) = Some (Launching 2)
   \<and> map_option loops (sup_step ext_z (CloseNotified 9 10)
          (the (sup_run ext_z (sup_start peer_a_world) glare_events))) = Some []"
proof -
  have fresh: "connection (contact peer_a_world) = None"
    by (simp add: peer_a_world_def world_of_def)
  obtain s where run: "sup_run ext_z (sup_start peer_a_world) glare_events = Some s"
    and at: "pc s = AwaitClosed 2"
    using glare_run_view by auto
  obtain s' where step: "sup_step ext_z (CloseNotified 9 10) s = Some s'"
    using glare_next_view run by auto
  from supervisor_one_protocol_loop [OF fresh run] at fresh run step show ?thesis
    by simp
qed

text \<open>
  C7, as the claim states it, fails: after the second offer of the glare the
  supervisor stands at line 243, the close notification of the loop of connection 1
  not yet received, and the connection field already holds connection 2.
\<close>

theorem supervisor_installs_before_close_notification:
  "map_option (\<lambda>s. (pc s, connection (contact (world s)), loops s))
     (sup_run ext_z (sup_start peer_a_world)
        [EnableSignal True, Offer (Some 1) 2000 5 6, Offer (Some 2) 3000 7 8])
   = Some (AwaitClosed 2, Some 2, [1])"
  using glare_run_view by (simp add: glare_events_def)

subsection \<open>The mutex and the published event\<close>

text \<open>
  \<^verbatim>\<open>UpdateContactRequest\<close> takes the contact's mutex and, with a request held, calls
  \<^verbatim>\<open>c.Data()\<close> for the event while it still holds it; \<^verbatim>\<open>Data\<close> locks the same
  mutex. The call therefore ends parked, after the record was updated and stored in
  the config and before anything is published.
\<close>

lemma mutex_Lock_free: "\<not> mutex (contact w) \<Longrightarrow> mutex_Lock w = Return (lock_held w)"
  by (simp add: mutex_Lock_def lock_held_def)

lemma updateContactRequest_returns:
  assumes "Request (data (contact w)) = Some r"
  shows "updateContactRequest ext t w status =
           Return (world_after (updateContactRequest ext t w status), status = ''Pending'')
     \<and> mutex (contact (world_after (updateContactRequest ext t w status))) = mutex (contact w)"
  using assms
  by (simp add: updateContactRequest_def Let_def put_config_def set_data_def)

lemma UpdateContactRequest_parks:
  assumes free: "\<not> mutex (contact w)" and held: "Request (data (contact w)) = Some r"
  shows "UpdateContactRequest ext t w status =
           Blocked (world_after (updateContactRequest ext t (lock_held w) status))"
proof -
  define w1 where "w1 = world_after (updateContactRequest ext t (lock_held w) status)"
  have r: "Request (data (contact (lock_held w))) = Some r"
    using held by (simp add: lock_held_def)
  have u: "updateContactRequest ext t (lock_held w) status = Return (w1, status = ''Pending'')"
    and m: "mutex (contact w1) = mutex (contact (lock_held w))"
    using updateContactRequest_returns [OF r, of ext t status] by (simp_all only: w1_def)
  have "mutex (contact w1)" using m by (simp add: lock_held_def)
  then have d: "Data w1 = Blocked w1" by (simp add: Data_def mutex_Lock_def)
  have "UpdateContactRequest ext t w status =
      and_then (updateContactRequest ext t (lock_held w) status) (\<lambda>(w2, re).
         and_then (Data w2) (\<lambda>(w3, snapshot).
         and_then (mutex_Unlock (w3\<lparr>trace := trace w3 @ [EventPublish snapshot]\<rparr>)) (\<lambda>w4.
         Return (w4, re))))"
    unfolding UpdateContactRequest_def mutex_Lock_free [OF free] using r by simp
  also have "\<dots> = Blocked w1"
    by (simp only: u and_then.simps prod.case d)
  finally show ?thesis by (simp only: w1_def)
qed

text \<open>
  \<^verbatim>\<open>onConnectionStateChanged\<close> releases the mutex before it calls \<^verbatim>\<open>c.Data()\<close>:
  called with the mutex held it returns, and its effects end with the store of the
  final record in the config followed by the event carrying that same record (and
  the flush when a connection is held). With an inbound connection and a request
  held, the nested \<^verbatim>\<open>updateContactRequest\<close> has stored the record once before.
\<close>

lemma persistAndPublish_trace:
  assumes "mutex (contact w)"
  shows "\<exists>w'. persistAndPublish ext t w = Return w'
     \<and> data (contact w') = (data (contact w))\<lparr>LastConnected := FormatRFC3339 ext t\<rparr>
     \<and> trace w' = trace w
         @ [ConfigWrite (Address (data (contact w))) (data (contact w')),
            EventPublish (data (contact w'))]
         @ (if connection (contact w) \<noteq> None then [SendQueuedMessages] else [])
     \<and> configContacts w' (Address (data (contact w))) = Some (data (contact w'))"
  using assms
  by (cases "connection (contact w)")
     (simp_all add: persistAndPublish_def Let_def put_config_def
          set_data_def mutex_Lock_def mutex_Unlock_def Data_def Conversation_def)

lemma onConnectionStateChanged_persist_then_publish:
  assumes held: "mutex (contact w)"
  shows "\<exists>w'. onConnectionStateChanged ext t0 t w = Return w'
    \<and> trace w' = (trace w
         @ (case connection (contact w) of
              None \<Rightarrow> []
            | Some cn \<Rightarrow>
                if Request (data (contact w)) \<noteq> None \<and> IsInbound (conns w cn)
                then [ConfigWrite (Address (data (contact w)))
                        ((data (contact w))\<lparr>Request := None, Status := ONLINE\<rparr>)]
                else []))
         @ [ConfigWrite (Address (data (contact w))) (data (contact w')),
            EventPublish (data (contact w'))]
         @ (if connection (contact w) \<noteq> None then [SendQueuedMessages] else [])
    \<and> configContacts w' (Address (data (contact w))) = Some (data (contact w'))"
proof -
  define first where "first =
       (case connection (contact w) of
          Some cn \<Rightarrow>
            if Request (data (contact w)) \<noteq> None \<and> IsInbound (conns w cn) then
              and_then (updateContactRequest ext t0 w ''Accepted'') (\<lambda>(w1, re). Return w1)
            else Return (set_data (\<lambda>d. d\<lparr>Status := ONLINE\<rparr>) w)
        | None \<Rightarrow>
            if Status (data (contact w)) = ONLINE then
              Return (set_data (\<lambda>d. d\<lparr>Status := OFFLINE\<rparr>) w)
            else Return w)"
  define pre where "pre = (case connection (contact w) of
              None \<Rightarrow> []
            | Some cn \<Rightarrow>
                if Request (data (contact w)) \<noteq> None \<and> IsInbound (conns w cn)
                then [ConfigWrite (Address (data (contact w)))
                        ((data (contact w))\<lparr>Request := None, Status := ONLINE\<rparr>)]
                else [])"
  have "\<exists>w1. first = Return w1 \<and> mutex (contact w1) \<and> trace w1 = trace w @ pre
      \<and> Address (data (contact w1)) = Address (data (contact w))
      \<and> connection (contact w1) = connection (contact w)"
    using held unfolding first_def pre_def
    by (cases "connection (contact w)")
       (auto simp: updateContactRequest_def put_config_def set_data_def)
  then obtain w1 where f: "first = Return w1" and m: "mutex (contact w1)"
    and tr: "trace w1 = trace w @ pre"
    and ad: "Address (data (contact w1)) = Address (data (contact w))"
    and cn: "connection (contact w1) = connection (contact w)"
    by blast
  have o: "onConnectionStateChanged ext t0 t w = persistAndPublish ext t w1"
    unfolding onConnectionStateChanged_def using f by (simp add: first_def)
  from persistAndPublish_trace [OF m, of ext t] obtain w' where
    r: "persistAndPublish ext t w1 = Return w'"
    and t': "trace w' = trace w1
         @ [ConfigWrite (Address (data (contact w1))) (data (contact w')),
            EventPublish (data (contact w'))]
         @ (if connection (contact w1) \<noteq> None then [SendQueuedMessages] else [])"
    and c': "configContacts w' (Address (data (contact w1))) = Some (data (contact w'))"
    by blast
  have A: "onConnectionStateChanged ext t0 t w = Return w'"
    using o r by (simp only:)
  have B: "trace w' = (trace w @ pre)
         @ [ConfigWrite (Address (data (contact w))) (data (contact w')),
            EventPublish (data (contact w'))]
         @ (if connection (contact w) \<noteq> None then [SendQueuedMessages] else [])"
    using t' by (simp only: tr ad cn)
  have C: "configContacts w' (Address (data (contact w))) = Some (data (contact w'))"
    using c' by (simp only: ad)
  show ?thesis
  proof (intro exI conjI)
    show "onConnectionStateChanged ext t0 t w = Return w'" by (fact A)
    show "trace w' = (trace w
         @ (case connection (contact w) of
              None \<Rightarrow> []
            | Some cn \<Rightarrow>
                if Request (data (contact w)) \<noteq> None \<and> IsInbound (conns w cn)
                then [ConfigWrite (Address (data (contact w)))
                        ((data (contact w))\<lparr>Request := None, Status := ONLINE\<rparr>)]
                else []))
         @ [ConfigWrite (Address (data (contact w))) (data (contact w')),
            EventPublish (data (contact w'))]
         @ (if connection (contact w) \<noteq> None then [SendQueuedMessages] else [])"
      using B unfolding pre_def .
    show "configContacts w' (Address (data (contact w))) = Some (data (contact w'))" by (fact C)
  qed
qed

text \<open>
  C8, at a contact in status REQUEST with a request held, no connection and the mutex
  free, for the token Accepted: \<^verbatim>\<open>UpdateContactRequest\<close> drops the request, sets the
  status to UNKNOWN, stores the record in the config and is then parked with the mutex
  held. The trace holds the config store and no event.
\<close>

theorem UpdateContactRequest_accepted_never_publishes:
  "UpdateContactRequest ext_a 5
       (world_of (data_of ''ricochet:zzzzzzzzzzzzzzzz'' (Some sample_request) REQUEST) None False)
       ''Accepted''
   = Blocked ((world_of (data_of ''ricochet:zzzzzzzzzzzzzzzz'' None UNKNOWN) None True)
       \<lparr>configContacts := [''ricochet:zzzzzzzzzzzzzzzz'' \<mapsto>
            data_of ''ricochet:zzzzzzzzzzzzzzzz'' None UNKNOWN],
        trace := [ConfigWrite ''ricochet:zzzzzzzzzzzzzzzz''
            (data_of ''ricochet:zzzzzzzzzzzzzzzz'' None UNKNOWN)]\<rparr>)"
  by (simp add: UpdateContactRequest_def updateContactRequest_def Let_def put_config_def
      set_data_def mutex_Lock_def mutex_Unlock_def Data_def world_of_def data_of_def)

subsection \<open>The outbound connector\<close>

text \<open>
  The arbitration after a successful authentication, by the known flag and the local
  \<open>isRequest\<close> flag: neither set, the connection is closed and the pass backs off;
  known and no request, the connection is delivered; not known and a request, the
  handshake runs first and only its success is followed by the delivery; known and a
  request that the record still holds, the pass is parked inside
  \<^verbatim>\<open>UpdateContactRequest\<close> and neither clears the flag nor delivers. The handshake is
  parked in the same way on any response of the peer.
\<close>

lemma connectPass_unknown_without_request:
  assumes "dial a = Dialled oc" "16 \<le> length hostname" "negotiated a"
    and "authKnown a = Some False"
  shows "connectPass ext hostname False w a =
           Return (closeConn oc w,
                   if backoffCancelled a then Finished Cancelled else Continue False)"
  using assms
  by (simp add: connectPass_def backoff_def closeUnhandledConnection_def)

lemma connectPass_known_without_request:
  assumes "dial a = Dialled oc" "16 \<le> length hostname" "negotiated a"
    and "authKnown a = Some True"
  shows "connectPass ext hostname False w a =
           Return (w\<lparr>trace := trace w @ [AssignConnection oc]\<rparr>, Finished (Delivered oc))"
  using assms
  by (simp add: connectPass_def deliver_def)

lemma connectPass_unknown_with_request:
  assumes "dial a = Dialled oc" "16 \<le> length hostname" "negotiated a"
    and "authKnown a = Some False"
  shows "connectPass ext hostname True w a =
           and_then (sendContactRequest ext (clock a) w oc (handshake a))
             (\<lambda>(w2, err). if err \<noteq> None then backoff a True w2 else deliver oc w2)"
  using assms
  by (simp add: connectPass_def)

lemma connectPass_known_with_request_parks:
  assumes "dial a = Dialled oc" "16 \<le> length hostname" "negotiated a"
    and "authKnown a = Some True"
    and free: "\<not> mutex (contact w)" and held: "Request (data (contact w)) = Some r"
  shows "connectPass ext hostname True w a =
           Blocked (world_after (updateContactRequest ext (clock a) (lock_held w) ''Accepted''))"
  using assms(1-4)
  by (simp add: connectPass_def UpdateContactRequest_parks [OF free held])

lemma sendContactRequest_response_parks:
  assumes free: "\<not> mutex (contact w)" and held: "Request (data (contact w)) = Some r"
  shows "sendContactRequest ext t w conn (PeerResponds response perr) =
           Blocked (world_after (updateContactRequest ext t (lock_held w) response))"
  using held
  by (simp add: sendContactRequest_def UpdateContactRequest_parks [OF free held])

text \<open>
  C9, at a contact in status REQUEST with a request held and the mutex free, for one
  pass whose dial, negotiation and authentication succeed with the known flag set:
  \<^verbatim>\<open>connectOutbound\<close> is parked inside \<^verbatim>\<open>UpdateContactRequest\<close>. The request is
  dropped and the record stored in the config, but the connector never reaches the
  assignment of line 358 and never sends the connection on the assignment channel.
\<close>

theorem connectOutbound_known_request_never_delivers:
  "connectOutbound ext_a
       (world_of (data_of ''ricochet:zzzzzzzzzzzzzzzz'' (Some sample_request) REQUEST) None False)
       [\<lparr>dial = Dialled 1, negotiated = True, authKnown = Some True, backoffCancelled = False,
         handshake = PeerResponds ''Accepted'' None, clock = 5\<rparr>]
   = Blocked ((world_of (data_of ''ricochet:zzzzzzzzzzzzzzzz'' None UNKNOWN) None True)
       \<lparr>configContacts := [''ricochet:zzzzzzzzzzzzzzzz'' \<mapsto>
            data_of ''ricochet:zzzzzzzzzzzzzzzz'' None UNKNOWN],
        trace := [ConfigWrite ''ricochet:zzzzzzzzzzzzzzzz''
            (data_of ''ricochet:zzzzzzzzzzzzzzzz'' None UNKNOWN)]\<rparr>)"
proof -
  let ?w = "world_of (data_of ''ricochet:zzzzzzzzzzzzzzzz'' (Some sample_request) REQUEST) None False"
  let ?a = "\<lparr>dial = Dialled 1, negotiated = True, authKnown = Some True, backoffCancelled = False,
         handshake = PeerResponds ''Accepted'' None, clock = 5\<rparr>"
  have free: "\<not> mutex (contact ?w)" by (simp add: world_of_def)
  have held: "Request (data (contact ?w)) = Some sample_request"
    by (simp add: world_of_def data_of_def)
  have host: "OnionFromAddress ext_a (Address (data (contact (lock_held ?w))))
      = ''zzzzzzzzzzzzzzzz.onion''"
    by (simp add: ext_a_def sample_onion_def world_of_def data_of_def lock_held_def)
  have unl: "mutex_Unlock (lock_held ?w) = Return ?w"
    by (simp add: mutex_Unlock_def lock_held_def world_of_def)
  have pass: "connectPass ext_a ''zzzzzzzzzzzzzzzz.onion'' True ?w ?a =
      Blocked (world_after (updateContactRequest ext_a 5 (lock_held ?w) ''Accepted''))"
    using connectPass_known_with_request_parks [of ?a 1 "''zzzzzzzzzzzzzzzz.onion''" ?w
        sample_request ext_a] free held
    by simp
  have upd: "world_after (updateContactRequest ext_a 5 (lock_held ?w) ''Accepted'')
      = (world_of (data_of ''ricochet:zzzzzzzzzzzzzzzz'' None UNKNOWN) None True)
       \<lparr>configContacts := [''ricochet:zzzzzzzzzzzzzzzz'' \<mapsto>
            data_of ''ricochet:zzzzzzzzzzzzzzzz'' None UNKNOWN],
        trace := [ConfigWrite ''ricochet:zzzzzzzzzzzzzzzz''
            (data_of ''ricochet:zzzzzzzzzzzzzzzz'' None UNKNOWN)]\<rparr>"
    by (simp add: updateContactRequest_def put_config_def set_data_def lock_held_def
        world_of_def data_of_def)
  have req: "Request (data (contact (lock_held ?w))) \<noteq> None"
    by (simp add: world_of_def data_of_def lock_held_def)
  show ?thesis
    unfolding connectOutbound_def mutex_Lock_free [OF free] and_then.simps Let_def host unl
    using req pass upd by simp
qed

subsection \<open>Status and request\<close>

lemma request_status_inv_iff:
  "request_status_inv d =
     (((Status d = REQUEST) = (\<exists>r. Request d = Some r \<and> \<not> Rejected r))
      \<and> ((Status d = REJECTED) = (\<exists>r. Request d = Some r \<and> Rejected r)))"
  by (cases "Request d") (auto simp: request_status_inv_def)

lemma request_status_kept_iff:
  "request_status_kept d =
     (((Status d = REQUEST) = (\<exists>r. Request d = Some r \<and> \<not> Rejected r))
      \<and> (\<forall>r. Request d = Some r \<and> Rejected r \<longrightarrow> Status d = REJECTED))"
  by (cases "Request d") (auto simp: request_status_kept_def)











text \<open>
  Every move of the supervisor keeps a property of the world that the moves' parts
  keep: worlds with the same view, \<^verbatim>\<open>onConnectionStateChanged\<close>, clearing the
  connection field, and storing an offered connection in it.
\<close>

lemma same_view_refl: "same_view w w"
  by (simp add: same_view_def)



































end
